theory Spec2Isabelle
  imports Main
begin

section \<open>Values of the JavaScript service layer\<close>

text \<open>
  Identifiers are the store's generated string tokens, times are milliseconds since the
  epoch. A JavaScript value that may be \<^verbatim>\<open>undefined\<close> is an option; for a field that is
  nullable in the store a patch distinguishes omitted (\<open>None\<close>), \<^verbatim>\<open>null\<close> (\<open>Some None\<close>)
  and a value.
\<close>

type_synonym ident = string
type_synonym date = int

text \<open>Truthiness of an optional string: \<^verbatim>\<open>undefined\<close>, \<^verbatim>\<open>null\<close> and \<^verbatim>\<open>''\<close> are falsy.\<close>

fun truthy :: "string option \<Rightarrow> bool" where
  "truthy None = False"
| "truthy (Some s) = (s \<noteq> [])"

text \<open>\<^verbatim>\<open>x || d\<close> on an optional string.\<close>

fun or_default :: "string option \<Rightarrow> string \<Rightarrow> string" where
  "or_default None d = d"
| "or_default (Some s) d = (if s = [] then d else s)"

text \<open>
  \<^verbatim>\<open>toUpperCase\<close> and the lower-casing behind a case-insensitive match, on the ASCII
  letters; every other character is left as it is.
\<close>

definition upperChar :: "char \<Rightarrow> char" where
  "upperChar c =
     (let n = (of_char c :: nat) in if 97 \<le> n \<and> n \<le> 122 then char_of (n - 32) else c)"

definition lowerChar :: "char \<Rightarrow> char" where
  "lowerChar c =
     (let n = (of_char c :: nat) in if 65 \<le> n \<and> n \<le> 90 then char_of (n + 32) else c)"

definition toUpperCase :: "string \<Rightarrow> string" where
  "toUpperCase s = map upperChar s"

definition toLowerCase :: "string \<Rightarrow> string" where
  "toLowerCase s = map lowerChar s"

fun startsWith :: "string \<Rightarrow> string \<Rightarrow> bool" where
  "startsWith hay [] = True"
| "startsWith [] (c # cs) = False"
| "startsWith (h # hs) (c # cs) = (h = c \<and> startsWith hs cs)"

fun contains :: "string \<Rightarrow> string \<Rightarrow> bool" where
  "contains [] needle = (needle = [])"
| "contains (h # hs) needle = (startsWith (h # hs) needle \<or> contains hs needle)"

text \<open>The filter \<^verbatim>\<open>{ contains: s, mode: 'insensitive' }\<close> on a column that may be null.\<close>

definition contains_insensitive :: "string option \<Rightarrow> string \<Rightarrow> bool" where
  "contains_insensitive field needle =
     (case field of None \<Rightarrow> False
      | Some v \<Rightarrow> contains (toLowerCase v) (toLowerCase needle))"

section \<open>The relational store\<close>

record user =
  u_id :: ident
  u_email :: string
  u_name :: string

record project =
  p_id :: ident
  p_name :: string
  p_description :: "string option"
  p_status :: string
  p_priority :: string
  p_color :: string
  p_dueDate :: "date option"
  p_ownerId :: ident
  p_updatedAt :: date

record projectMember =
  m_userId :: ident
  m_projectId :: ident
  m_role :: string

record projectColumn =
  c_projectId :: ident
  c_name :: string
  c_order :: int
  c_color :: string

record projectTag =
  g_id :: ident
  g_name :: string
  g_projectId :: ident

record task =
  t_id :: ident
  t_title :: string
  t_description :: "string option"
  t_projectId :: ident
  t_creatorId :: ident
  t_assigneeId :: "ident option"
  t_status :: string
  t_priority :: string
  t_dueDate :: "date option"
  t_completedDate :: "date option"
  t_estimatedHours :: "int option"
  t_actualHours :: "int option"
  t_position :: int
  t_isArchived :: bool
  t_createdAt :: date

record comment =
  k_id :: ident
  k_content :: string
  k_authorId :: ident
  k_taskId :: ident
  k_isEdited :: bool
  k_createdAt :: date
  k_updatedAt :: date

record taskWatcher =
  w_userId :: ident
  w_taskId :: ident

record taskTag =
  tt_taskId :: ident
  tt_tagId :: ident

text \<open>
  One table per model, rows in insertion order. The nested user selections of the
  \<^verbatim>\<open>include\<close> clauses (id, name, email, avatar of an owner, member, creator, assignee or
  author) are projections of the users table and are not repeated in the results below.
\<close>

record db =
  users :: "user list"
  projects :: "project list"
  members :: "projectMember list"
  columns :: "projectColumn list"
  tags :: "projectTag list"
  tasks :: "task list"
  comments :: "comment list"
  watchers :: "taskWatcher list"
  taskTags :: "taskTag list"

text \<open>
  What the store client throws by itself: a second row under a unique key, a row to
  delete or update that is not there, a negative \<^verbatim>\<open>skip\<close>, and a relation column set
  to an identifier that no row of the related table has.
\<close>

datatype store_failure =
  UniqueConstraint | RecordNotFound | InvalidArgument | ForeignKeyConstraint

datatype action = UpdateProject | AddMembers | RemoveMembers | EditTask | DeleteTask | DeleteComment

text \<open>
  The errors of the two services, one constructor per message:
  \<^item> \<open>ProjectNotFoundOrDenied\<close>: \<^verbatim>\<open>Project not found or access denied\<close>
  \<^item> \<open>InsufficientPermissions a\<close>: \<^verbatim>\<open>Insufficient permissions to ...\<close>, \<open>a\<close> the action named
  \<^item> \<open>UserNotFound\<close>: \<^verbatim>\<open>User not found\<close>
  \<^item> \<open>AlreadyMember\<close>: \<^verbatim>\<open>User is already a member of this project\<close>
  \<^item> \<open>CannotRemoveOwner\<close>: \<^verbatim>\<open>Cannot remove project owner\<close>
  \<^item> \<open>AccessDenied\<close>: \<^verbatim>\<open>Access denied - not a project member\<close>
  \<^item> \<open>InvalidAssignee\<close>: \<^verbatim>\<open>Assignee must be a project member\<close>
  \<^item> \<open>TaskNotFound\<close>: \<^verbatim>\<open>Task not found\<close>
  \<^item> \<open>CommentNotFound\<close>: \<^verbatim>\<open>Comment not found\<close>
  \<^item> \<open>NotCommentAuthor\<close>: \<^verbatim>\<open>You can only edit your own comments\<close>
  \<^item> \<open>StoreError f\<close>: an error thrown by the store client
\<close>

datatype error =
    ProjectNotFoundOrDenied
  | InsufficientPermissions action
  | UserNotFound
  | AlreadyMember
  | CannotRemoveOwner
  | AccessDenied
  | InvalidAssignee
  | TaskNotFound
  | CommentNotFound
  | NotCommentAuthor
  | StoreError store_failure

section \<open>projectService.js\<close>

subsection \<open>Membership queries\<close>

definition memberRow :: "ident \<Rightarrow> ident \<Rightarrow> db \<Rightarrow> projectMember option" where
  "memberRow projectId userId d =
     find (\<lambda>m. m_userId m = userId \<and> m_projectId m = projectId) (members d)"

definition isProjectMember :: "ident \<Rightarrow> ident \<Rightarrow> db \<Rightarrow> bool" where
  "isProjectMember projectId userId d = (memberRow projectId userId d \<noteq> None)"

text \<open>\<^verbatim>\<open>member?.role || null\<close>\<close>

definition getUserRole :: "ident \<Rightarrow> ident \<Rightarrow> db \<Rightarrow> string option" where
  "getUserRole projectId userId d =
     (case memberRow projectId userId d of
        None \<Rightarrow> None
      | Some m \<Rightarrow> if m_role m = [] then None else Some (m_role m))"

subsection \<open>getProjectById\<close>

text \<open>The relation filter \<^verbatim>\<open>members: { some: { userId } }\<close> on a project row.\<close>

definition membersSome :: "db \<Rightarrow> project \<Rightarrow> ident \<Rightarrow> bool" where
  "membersSome d p userId =
     list_ex (\<lambda>m. m_projectId m = p_id p \<and> m_userId m = userId) (members d)"

record project_detail =
  pd_project :: project
  pd_members :: "projectMember list"
  pd_columns :: "projectColumn list"
  pd_tags :: "projectTag list"
  pd_taskCount :: nat

definition project_include :: "db \<Rightarrow> project \<Rightarrow> project_detail" where
  "project_include d p =
     \<lparr> pd_project = p,
       pd_members = filter (\<lambda>m. m_projectId m = p_id p) (members d),
       pd_columns = sort_key c_order (filter (\<lambda>c. c_projectId c = p_id p) (columns d)),
       pd_tags = filter (\<lambda>g. g_projectId g = p_id p) (tags d),
       pd_taskCount = length (filter (\<lambda>t. t_projectId t = p_id p) (tasks d)) \<rparr>"

definition getProjectById :: "ident \<Rightarrow> ident \<Rightarrow> db \<Rightarrow> error + project_detail" where
  "getProjectById ident userId d =
     (case find (\<lambda>p. p_id p = ident \<and> (p_ownerId p = userId \<or> membersSome d p userId))
             (projects d) of
        None \<Rightarrow> Inl ProjectNotFoundOrDenied
      | Some p \<Rightarrow> Inr (project_include d p))"

subsection \<open>createProject\<close>

record projectData =
  pd_name :: string
  pd_descriptionIn :: "string option"
  pd_dueDateIn :: "date option"
  pd_priorityIn :: "string option"
  pd_colorIn :: "string option"
  pd_tagsIn :: "string list option"

text \<open>
  Modelled from the spec: the schema file is not among the sources, so the default of the
  status column, which \<^verbatim>\<open>createProject\<close> leaves to the store, is taken from the data model
  (status active, stored in upper case as \<^verbatim>\<open>getUserProjects\<close> compares it and as the seed
  script writes it).
\<close>

definition defaultProjectStatus :: string where
  "defaultProjectStatus = ''ACTIVE''"

definition defaultColumns :: "(string \<times> int \<times> string) list" where
  "defaultColumns =
     [(''To Do'', 0, ''#EF4444''),
      (''In Progress'', 1, ''#F59E0B''),
      (''Review'', 2, ''#8B5CF6''),
      (''Done'', 3, ''#10B981'')]"

definition columnRow :: "ident \<Rightarrow> string \<times> int \<times> string \<Rightarrow> projectColumn" where
  "columnRow projectId col =
     \<lparr> c_projectId = projectId, c_name = fst col, c_order = fst (snd col),
       c_color = snd (snd col) \<rparr>"

text \<open>
  The rows of \<^verbatim>\<open>tags.map(tag => ({ name: tag, projectId }))\<close>; \<open>gen\<close> is the sequence of
  identifiers the store generates during the call, \<open>gen 0\<close> being the project's own.
\<close>

definition tagRows :: "(nat \<Rightarrow> ident) \<Rightarrow> ident \<Rightarrow> string list \<Rightarrow> projectTag list" where
  "tagRows gen projectId names =
     map (\<lambda>(i, n). \<lparr> g_id = gen (Suc i), g_name = n, g_projectId = projectId \<rparr>)
       (enumerate 0 names)"

text \<open>
  The transaction either returns the created project, with the members the store sees at
  that moment, and the new store, or fails and leaves the store as it was. A generated
  identifier that is already in use is a unique-key failure.
\<close>

definition newProject :: "projectData \<Rightarrow> ident \<Rightarrow> date \<Rightarrow> ident \<Rightarrow> project" where
  "newProject projectData ownerId now newId =
     \<lparr> p_id = newId,
       p_name = pd_name projectData,
       p_description = pd_descriptionIn projectData,
       p_status = defaultProjectStatus,
       p_priority = or_default (pd_priorityIn projectData) ''MEDIUM'',
       p_color = or_default (pd_colorIn projectData) ''#3B82F6'',
       p_dueDate = pd_dueDateIn projectData,
       p_ownerId = ownerId,
       p_updatedAt = now \<rparr>"

definition ownerMember :: "ident \<Rightarrow> ident \<Rightarrow> projectMember" where
  "ownerMember ownerId projectId =
     \<lparr> m_userId = ownerId, m_projectId = projectId, m_role = ''OWNER'' \<rparr>"

definition createProject ::
  "projectData \<Rightarrow> ident \<Rightarrow> date \<Rightarrow> (nat \<Rightarrow> ident) \<Rightarrow> db \<Rightarrow>
     error + ((project \<times> projectMember list) \<times> db)" where
  "createProject projectData ownerId now gen d =
     (let project = newProject projectData ownerId now (gen 0)
      in if list_ex (\<lambda>p. p_id p = p_id project) (projects d)
         then Inl (StoreError UniqueConstraint)
         else if isProjectMember (p_id project) ownerId d
         then Inl (StoreError UniqueConstraint)
         else
           let d1 = d\<lparr> projects := projects d @ [project] \<rparr>;
               d2 = d1\<lparr> members := members d1 @ [ownerMember ownerId (p_id project)] \<rparr>;
               d3 = d2\<lparr> columns := columns d2 @ map (columnRow (p_id project)) defaultColumns \<rparr>;
               d4 = (case pd_tagsIn projectData of
                       None \<Rightarrow> d3
                     | Some names \<Rightarrow>
                         if length names > 0
                         then d3\<lparr> tags := tags d3 @ tagRows gen (p_id project) names \<rparr>
                         else d3)
           in Inr ((project, filter (\<lambda>m. m_projectId m = p_id project) (members d)), d4))"

subsection \<open>getUserProjects\<close>

record projectFilters =
  f_status :: "string option"
  f_search :: "string option"
  f_page :: nat
  f_limit :: nat

datatype project_cond =
    OwnerIs ident
  | MembersSomeUser ident
  | NameContains string
  | DescriptionContains string

text \<open>The \<^verbatim>\<open>where\<close> object: its key \<^verbatim>\<open>OR\<close> and its optional key \<^verbatim>\<open>status\<close>.\<close>

record project_where =
  where_OR :: "project_cond list"
  where_status :: "string option"

fun holds_cond :: "db \<Rightarrow> project \<Rightarrow> project_cond \<Rightarrow> bool" where
  "holds_cond d p (OwnerIs u) = (p_ownerId p = u)"
| "holds_cond d p (MembersSomeUser u) = membersSome d p u"
| "holds_cond d p (NameContains s) = contains_insensitive (Some (p_name p)) s"
| "holds_cond d p (DescriptionContains s) = contains_insensitive (p_description p) s"

definition matches_where :: "db \<Rightarrow> project_where \<Rightarrow> project \<Rightarrow> bool" where
  "matches_where d w p =
     (list_ex (holds_cond d p) (where_OR w) \<and>
      (case where_status w of None \<Rightarrow> True | Some s \<Rightarrow> p_status p = s))"

text \<open>
  The three statements that build \<^verbatim>\<open>where\<close>, in the order of the source: the owner-or-member
  alternative, then \<^verbatim>\<open>where.status\<close>, then the assignment to \<^verbatim>\<open>where.OR\<close> for a search term.
\<close>

definition userProjectsWhere :: "ident \<Rightarrow> projectFilters \<Rightarrow> project_where" where
  "userProjectsWhere userId filters =
     (let w0 = \<lparr> where_OR = [OwnerIs userId, MembersSomeUser userId], where_status = None \<rparr>;
          w1 = (if truthy (f_status filters)
                then w0\<lparr> where_status := Some (toUpperCase (the (f_status filters))) \<rparr>
                else w0);
          w2 = (if truthy (f_search filters)
                then w1\<lparr> where_OR := [NameContains (the (f_search filters)),
                                        DescriptionContains (the (f_search filters))] \<rparr>
                else w1)
      in w2)"

record pagination =
  pg_current :: nat
  pg_pages :: "nat option"
  pg_total :: nat

text \<open>
  \<^verbatim>\<open>Math.ceil(total / limit)\<close>; with \<^verbatim>\<open>limit = 0\<close> the quotient is not a number of pages
  (\<open>None\<close>).
\<close>

definition pageCount :: "nat \<Rightarrow> nat \<Rightarrow> nat option" where
  "pageCount n limit =
     (if limit = 0 then None else Some ((n + limit - 1) div limit))"

definition getUserProjects ::
  "ident \<Rightarrow> projectFilters \<Rightarrow> db \<Rightarrow> error + (project list \<times> pagination)" where
  "getUserProjects userId filters d =
     (let w = userProjectsWhere userId filters;
          skip = (int (f_page filters) - 1) * int (f_limit filters);
          found = sort_key (\<lambda>p. - p_updatedAt p) (filter (matches_where d w) (projects d));
          count = length (filter (matches_where d w) (projects d))
      in if skip < 0 then Inl (StoreError InvalidArgument)
         else Inr (take (f_limit filters) (drop (nat skip) found),
                   \<lparr> pg_current = f_page filters,
                     pg_pages = pageCount count (f_limit filters),
                     pg_total = count \<rparr>))"

subsection \<open>addMember and removeMember\<close>

text \<open>
  \<^verbatim>\<open>project.members.find(m => m.userId === userId)\<close> followed by the role test. The
  role of \<open>addMember\<close> is the string the caller passes (\<^verbatim>\<open>MEMBER\<close> when the caller
  leaves it out).
\<close>

definition isEditor :: "project_detail \<Rightarrow> ident \<Rightarrow> bool" where
  "isEditor project userId =
     (case find (\<lambda>m. m_userId m = userId) (pd_members project) of
        None \<Rightarrow> False
      | Some userMember \<Rightarrow> m_role userMember = ''OWNER'' \<or> m_role userMember = ''ADMIN'')"

definition addMember ::
  "ident \<Rightarrow> string \<Rightarrow> string \<Rightarrow> ident \<Rightarrow> db \<Rightarrow> error + (project_detail \<times> db)" where
  "addMember projectId email role userId d =
     (case getProjectById projectId userId d of
        Inl e \<Rightarrow> Inl e
      | Inr project \<Rightarrow>
          if \<not> isEditor project userId then Inl (InsufficientPermissions AddMembers)
          else
            (case find (\<lambda>u. u_email u = toLowerCase email) (users d) of
               None \<Rightarrow> Inl UserNotFound
             | Some user \<Rightarrow>
                 if isProjectMember projectId (u_id user) d then Inl AlreadyMember
                 else
                   let d' = d\<lparr> members := members d @
                              [\<lparr> m_userId = u_id user, m_projectId = projectId,
                                 m_role = toUpperCase role \<rparr>] \<rparr>
                   in (case getProjectById projectId userId d' of
                         Inl e \<Rightarrow> Inl e
                       | Inr project' \<Rightarrow> Inr (project', d'))))"

definition removeMember :: "ident \<Rightarrow> ident \<Rightarrow> ident \<Rightarrow> db \<Rightarrow> error + db" where
  "removeMember projectId memberUserId userId d =
     (case getProjectById projectId userId d of
        Inl e \<Rightarrow> Inl e
      | Inr project \<Rightarrow>
          if \<not> isEditor project userId then Inl (InsufficientPermissions RemoveMembers)
          else if p_ownerId (pd_project project) = memberUserId then Inl CannotRemoveOwner
          else if \<not> isProjectMember projectId memberUserId d
          then Inl (StoreError RecordNotFound)
          else Inr (d\<lparr> members :=
                        filter (\<lambda>m. \<not> (m_userId m = memberUserId \<and> m_projectId m = projectId))
                          (members d) \<rparr>))"

section \<open>taskService.js\<close>

subsection \<open>createTask\<close>

record taskData =
  td_title :: string
  td_description :: "string option"
  td_assigneeId :: "ident option"
  td_status :: "string option"
  td_priority :: "string option"
  td_dueDate :: "date option"
  td_estimatedHours :: "int option"
  td_tags :: "string list option"

text \<open>The tasks of one project that share a status: a lane of the board.\<close>

definition lane :: "ident \<Rightarrow> string \<Rightarrow> db \<Rightarrow> task list" where
  "lane projectId status d =
     filter (\<lambda>t. t_projectId t = projectId \<and> t_status t = status) (tasks d)"

text \<open>\<^verbatim>\<open>findFirst\<close> on a lane with \<^verbatim>\<open>orderBy: { position: 'desc' }\<close>.\<close>

definition lastTask :: "ident \<Rightarrow> string \<Rightarrow> db \<Rightarrow> task option" where
  "lastTask projectId status d =
     (case sort_key (\<lambda>t. - t_position t) (lane projectId status d) of
        [] \<Rightarrow> None
      | t # rest \<Rightarrow> Some t)"

definition nextPosition :: "ident \<Rightarrow> string \<Rightarrow> db \<Rightarrow> int" where
  "nextPosition projectId status d =
     (case lastTask projectId status d of None \<Rightarrow> 0 | Some t \<Rightarrow> t_position t + 1)"

definition newTask ::
  "taskData \<Rightarrow> ident \<Rightarrow> ident \<Rightarrow> date \<Rightarrow> ident \<Rightarrow> int \<Rightarrow> task" where
  "newTask taskData projectId creatorId now newId position =
     \<lparr> t_id = newId,
       t_title = td_title taskData,
       t_description = td_description taskData,
       t_projectId = projectId,
       t_creatorId = creatorId,
       t_assigneeId = td_assigneeId taskData,
       t_status = or_default (td_status taskData) ''To Do'',
       t_priority = or_default (td_priority taskData) ''MEDIUM'',
       t_dueDate = td_dueDate taskData,
       t_completedDate = None,
       t_estimatedHours = td_estimatedHours taskData,
       t_actualHours = None,
       t_position = position,
       t_isArchived = False,
       t_createdAt = now \<rparr>"

definition hasWatcher :: "ident \<Rightarrow> ident \<Rightarrow> db \<Rightarrow> bool" where
  "hasWatcher userId taskId d =
     list_ex (\<lambda>w. w_userId w = userId \<and> w_taskId w = taskId) (watchers d)"

text \<open>\<^verbatim>\<open>taskWatcher.create\<close>: the pair (userId, taskId) is a unique key.\<close>

definition createWatcher :: "ident \<Rightarrow> ident \<Rightarrow> db \<Rightarrow> error + db" where
  "createWatcher userId taskId d =
     (if hasWatcher userId taskId d then Inl (StoreError UniqueConstraint)
      else Inr (d\<lparr> watchers := watchers d @ [\<lparr> w_userId = userId, w_taskId = taskId \<rparr>] \<rparr>))"

text \<open>
  The loop over the tag names: find the project's tag of that name or create it, then
  link it to the task. \<open>k\<close> counts the identifiers the store has generated so far.
\<close>

fun linkTags ::
  "(nat \<Rightarrow> ident) \<Rightarrow> nat \<Rightarrow> ident \<Rightarrow> ident \<Rightarrow> string list \<Rightarrow> db \<Rightarrow> error + db" where
  "linkTags gen k projectId taskId [] d = Inr d"
| "linkTags gen k projectId taskId (tagName # rest) d =
     (case find (\<lambda>g. g_name g = tagName \<and> g_projectId g = projectId) (tags d) of
        Some tag \<Rightarrow>
          linkTags gen k projectId taskId rest
            (d\<lparr> taskTags := taskTags d @ [\<lparr> tt_taskId = taskId, tt_tagId = g_id tag \<rparr>] \<rparr>)
      | None \<Rightarrow>
          if list_ex (\<lambda>g. g_id g = gen k) (tags d) then Inl (StoreError UniqueConstraint)
          else
            linkTags gen (Suc k) projectId taskId rest
              (d\<lparr> tags := tags d @
                     [\<lparr> g_id = gen k, g_name = tagName, g_projectId = projectId \<rparr>],
                   taskTags := taskTags d @ [\<lparr> tt_taskId = taskId, tt_tagId = gen k \<rparr>] \<rparr>))"

definition createTask ::
  "taskData \<Rightarrow> ident \<Rightarrow> ident \<Rightarrow> date \<Rightarrow> (nat \<Rightarrow> ident) \<Rightarrow> db \<Rightarrow> error + (task \<times> db)" where
  "createTask taskData projectId creatorId now gen d =
     (if \<not> isProjectMember projectId creatorId d then Inl AccessDenied
      else if truthy (td_assigneeId taskData) \<and>
              \<not> isProjectMember projectId (the (td_assigneeId taskData)) d
      then Inl InvalidAssignee
      else
        let position = nextPosition projectId (or_default (td_status taskData) ''To Do'') d;
            task = newTask taskData projectId creatorId now (gen 0) position
        in if list_ex (\<lambda>t. t_id t = t_id task) (tasks d) then Inl (StoreError UniqueConstraint)
           else
             (case createWatcher creatorId (t_id task) (d\<lparr> tasks := tasks d @ [task] \<rparr>) of
                Inl e \<Rightarrow> Inl e
              | Inr d1 \<Rightarrow>
                  (case (if truthy (td_assigneeId taskData) \<and>
                            td_assigneeId taskData \<noteq> Some creatorId
                         then createWatcher (the (td_assigneeId taskData)) (t_id task) d1
                         else Inr d1) of
                     Inl e \<Rightarrow> Inl e
                   | Inr d2 \<Rightarrow>
                       (case (case td_tags taskData of
                                None \<Rightarrow> Inr d2
                              | Some names \<Rightarrow>
                                  if length names > 0
                                  then linkTags gen 1 projectId (t_id task) names d2
                                  else Inr d2) of
                          Inl e \<Rightarrow> Inl e
                        | Inr d3 \<Rightarrow> Inr (task, d3)))))"

subsection \<open>getProjectTasks\<close>




subsection \<open>getTaskById\<close>

text \<open>
  The task with its comments (oldest first), watchers and tag links. Attachments and
  checklist items, which no operation of the two services writes, are not modelled.
\<close>

record task_view =
  tv_task :: task
  tv_comments :: "comment list"
  tv_watchers :: "taskWatcher list"
  tv_tags :: "taskTag list"

definition task_include :: "db \<Rightarrow> task \<Rightarrow> task_view" where
  "task_include d t =
     \<lparr> tv_task = t,
       tv_comments = sort_key k_createdAt (filter (\<lambda>k. k_taskId k = t_id t) (comments d)),
       tv_watchers = filter (\<lambda>w. w_taskId w = t_id t) (watchers d),
       tv_tags = filter (\<lambda>l. tt_taskId l = t_id t) (taskTags d) \<rparr>"

definition getTaskById :: "ident \<Rightarrow> ident \<Rightarrow> db \<Rightarrow> error + task_view" where
  "getTaskById ident userId d =
     (case find (\<lambda>t. t_id t = ident) (tasks d) of
        None \<Rightarrow> Inl TaskNotFound
      | Some task \<Rightarrow>
          if \<not> isProjectMember (t_projectId task) userId d then Inl AccessDenied
          else Inr (task_include d task))"

subsection \<open>updateTask\<close>

text \<open>
  The patch: a field that is omitted is \<open>None\<close>. \<^verbatim>\<open>tags\<close> is split off by the destructuring
  and not used again.
\<close>

record taskPatch =
  tp_title :: "string option"
  tp_description :: "string option option"
  tp_assigneeId :: "ident option option"
  tp_status :: "string option"
  tp_priority :: "string option"
  tp_dueDate :: "date option option"
  tp_completedDate :: "date option option"
  tp_estimatedHours :: "int option option"
  tp_actualHours :: "int option option"
  tp_position :: "int option"
  tp_isArchived :: "bool option"
  tp_tags :: "string list option"

definition canEdit :: "task \<Rightarrow> ident \<Rightarrow> string option \<Rightarrow> bool" where
  "canEdit task userId userRole =
     (t_creatorId task = userId \<or> t_assigneeId task = Some userId \<or>
      userRole = Some ''OWNER'' \<or> userRole = Some ''ADMIN'')"

text \<open>
  The object passed as \<^verbatim>\<open>data\<close>: the spread of the patch, then the keys \<^verbatim>\<open>dueDate\<close> and
  \<^verbatim>\<open>completedDate\<close>, which replace whatever the patch held under them.
\<close>

definition taskUpdateData :: "taskPatch \<Rightarrow> date \<Rightarrow> taskPatch" where
  "taskUpdateData taskData now =
     taskData
       \<lparr> tp_dueDate :=
           (case tp_dueDate taskData of Some (Some due) \<Rightarrow> Some (Some due) | _ \<Rightarrow> None),
         tp_completedDate :=
           (if tp_status taskData = Some ''Done'' \<or> tp_status taskData = Some ''Completed''
            then Some (Some now)
            else if truthy (tp_status taskData) \<and> tp_status taskData \<noteq> Some ''Done'' \<and>
                    tp_status taskData \<noteq> Some ''Completed''
            then Some None
            else None) \<rparr>"

text \<open>\<^verbatim>\<open>task.update\<close>: a key that is \<^verbatim>\<open>undefined\<close> leaves the column as it is.\<close>

fun assign :: "'a option \<Rightarrow> 'a \<Rightarrow> 'a" where
  "assign None old = old"
| "assign (Some v) old = v"

definition applyTaskData :: "taskPatch \<Rightarrow> task \<Rightarrow> task" where
  "applyTaskData data t =
     t\<lparr> t_title := assign (tp_title data) (t_title t),
        t_description := assign (tp_description data) (t_description t),
        t_assigneeId := assign (tp_assigneeId data) (t_assigneeId t),
        t_status := assign (tp_status data) (t_status t),
        t_priority := assign (tp_priority data) (t_priority t),
        t_dueDate := assign (tp_dueDate data) (t_dueDate t),
        t_completedDate := assign (tp_completedDate data) (t_completedDate t),
        t_estimatedHours := assign (tp_estimatedHours data) (t_estimatedHours t),
        t_actualHours := assign (tp_actualHours data) (t_actualHours t),
        t_position := assign (tp_position data) (t_position t),
        t_isArchived := assign (tp_isArchived data) (t_isArchived t) \<rparr>"

text \<open>\<^verbatim>\<open>updateData.assigneeId && updateData.assigneeId !== task.assigneeId\<close>\<close>

definition assigneeChanged :: "taskPatch \<Rightarrow> task \<Rightarrow> bool" where
  "assigneeChanged updateData task =
     (case tp_assigneeId updateData of
        Some (Some a) \<Rightarrow> a \<noteq> [] \<and> Some a \<noteq> t_assigneeId task
      | _ \<Rightarrow> False)"

text \<open>
  The assignee of a task is a relation to a user (the schema excerpt of the migration
  summary): \<^verbatim>\<open>task.update\<close> with an \<^verbatim>\<open>assigneeId\<close> that is not the identifier of a user is
  rejected by the store. The service does not check the new assignee itself.
\<close>

definition unknownAssignee :: "taskPatch \<Rightarrow> db \<Rightarrow> bool" where
  "unknownAssignee data d =
     (case tp_assigneeId data of
        Some (Some a) \<Rightarrow> \<not> list_ex (\<lambda>u. u_id u = a) (users d)
      | _ \<Rightarrow> False)"

definition updateTask ::
  "ident \<Rightarrow> taskPatch \<Rightarrow> ident \<Rightarrow> date \<Rightarrow> db \<Rightarrow> error + (task \<times> db)" where
  "updateTask ident updateData userId now d =
     (case getTaskById ident userId d of
        Inl e \<Rightarrow> Inl e
      | Inr found \<Rightarrow>
          let task = tv_task found;
              userRole = getUserRole (t_projectId task) userId d
          in if \<not> canEdit task userId userRole then Inl (InsufficientPermissions EditTask)
             else if unknownAssignee (taskUpdateData updateData now) d
             then Inl (StoreError ForeignKeyConstraint)
             else
               let data = taskUpdateData updateData now;
                   d1 = d\<lparr> tasks := map (\<lambda>t. if t_id t = ident then applyTaskData data t else t)
                                      (tasks d) \<rparr>;
                   d2 = (if assigneeChanged updateData task \<and>
                            \<not> hasWatcher (the (the (tp_assigneeId updateData))) ident d1
                         then d1\<lparr> watchers := watchers d1 @
                                   [\<lparr> w_userId = the (the (tp_assigneeId updateData)),
                                      w_taskId = ident \<rparr>] \<rparr>
                         else d1)
               in Inr (applyTaskData data task, d2))"

subsection \<open>deleteTask\<close>

definition canDelete :: "task \<Rightarrow> ident \<Rightarrow> string option \<Rightarrow> bool" where
  "canDelete task userId userRole =
     (t_creatorId task = userId \<or> userRole = Some ''OWNER'' \<or> userRole = Some ''ADMIN'')"

text \<open>
  Modelled from the spec: the schema file is not among the sources; by the data model a
  task owns its comments, watchers and tag links, which are deleted with it.
\<close>

definition deleteTaskRows :: "ident \<Rightarrow> db \<Rightarrow> db" where
  "deleteTaskRows ident d =
     d\<lparr> tasks := filter (\<lambda>t. t_id t \<noteq> ident) (tasks d),
        comments := filter (\<lambda>k. k_taskId k \<noteq> ident) (comments d),
        watchers := filter (\<lambda>w. w_taskId w \<noteq> ident) (watchers d),
        taskTags := filter (\<lambda>l. tt_taskId l \<noteq> ident) (taskTags d) \<rparr>"

definition deleteTask :: "ident \<Rightarrow> ident \<Rightarrow> db \<Rightarrow> error + db" where
  "deleteTask ident userId d =
     (case getTaskById ident userId d of
        Inl e \<Rightarrow> Inl e
      | Inr found \<Rightarrow>
          let task = tv_task found;
              userRole = getUserRole (t_projectId task) userId d
          in if \<not> canDelete task userId userRole then Inl (InsufficientPermissions DeleteTask)
             else Inr (deleteTaskRows ident d))"

subsection \<open>Comments\<close>


definition updateComment ::
  "ident \<Rightarrow> ident \<Rightarrow> string \<Rightarrow> ident \<Rightarrow> date \<Rightarrow> db \<Rightarrow> error + (comment \<times> db)" where
  "updateComment taskId commentId content userId now d =
     (case getTaskById taskId userId d of
        Inl e \<Rightarrow> Inl e
      | Inr task \<Rightarrow>
          (case find (\<lambda>k. k_id k = commentId) (comments d) of
             None \<Rightarrow> Inl CommentNotFound
           | Some old \<Rightarrow>
               if k_authorId old \<noteq> userId then Inl NotCommentAuthor
               else
                 let new = old\<lparr> k_content := content, k_isEdited := True, k_updatedAt := now \<rparr>
                 in Inr (new, d\<lparr> comments := map (\<lambda>k. if k_id k = commentId then new else k)
                                                (comments d) \<rparr>)))"

definition deleteComment :: "ident \<Rightarrow> ident \<Rightarrow> ident \<Rightarrow> db \<Rightarrow> error + db" where
  "deleteComment taskId commentId userId d =
     (case getTaskById taskId userId d of
        Inl e \<Rightarrow> Inl e
      | Inr first \<Rightarrow>
          (case find (\<lambda>k. k_id k = commentId) (comments d) of
             None \<Rightarrow> Inl CommentNotFound
           | Some found \<Rightarrow>
               (case getTaskById taskId userId d of
                  Inl e \<Rightarrow> Inl e
                | Inr task \<Rightarrow>
                    let userRole = getUserRole (t_projectId (tv_task task)) userId d;
                        allowed = (k_authorId found = userId \<or> userRole = Some ''OWNER'' \<or>
                                   userRole = Some ''ADMIN'')
                    in if \<not> allowed then Inl (InsufficientPermissions DeleteComment)
                       else Inr (d\<lparr> comments := filter (\<lambda>k. k_id k \<noteq> commentId)
                                                   (comments d) \<rparr>))))"

section \<open>Integrity conditions of the store\<close>

text \<open>The membership rows of a project that carry the role \<^verbatim>\<open>OWNER\<close>.\<close>

definition ownerRows :: "db \<Rightarrow> ident \<Rightarrow> projectMember list" where
  "ownerRows d projectId =
     filter (\<lambda>m. m_projectId m = projectId \<and> m_role m = ''OWNER'') (members d)"

text \<open>Exactly one such row, and it is the row of the project's owner.\<close>

definition one_owner :: "db \<Rightarrow> project \<Rightarrow> bool" where
  "one_owner d p = (map m_userId (ownerRows d (p_id p)) = [p_ownerId p])"

definition owner_invariant :: "db \<Rightarrow> bool" where
  "owner_invariant d = list_all (one_owner d) (projects d)"

text \<open>Referential integrity: a membership row, a column row belongs to a stored project.\<close>

definition members_refer :: "db \<Rightarrow> bool" where
  "members_refer d =
     list_all (\<lambda>m. list_ex (\<lambda>p. p_id p = m_projectId m) (projects d)) (members d)"

definition columns_refer :: "db \<Rightarrow> bool" where
  "columns_refer d =
     list_all (\<lambda>c. list_ex (\<lambda>p. p_id p = c_projectId c) (projects d)) (columns d)"

section \<open>A sample store\<close>

text \<open>
  Two projects. Alice owns the first, with Bob and Dan as plain members; Carol owns the
  second, with Bob as a plain member. Carol is not a member of the first project but has
  written a comment on one of its tasks. The second task of the first project is archived.
\<close>

definition ex_users :: "user list" where
  "ex_users =
     [\<lparr> u_id = ''u1'', u_email = ''alice@x.com'', u_name = ''Alice'' \<rparr>,
      \<lparr> u_id = ''u2'', u_email = ''bob@x.com'', u_name = ''Bob'' \<rparr>,
      \<lparr> u_id = ''u3'', u_email = ''carol@x.com'', u_name = ''Carol'' \<rparr>,
      \<lparr> u_id = ''u4'', u_email = ''dan@x.com'', u_name = ''Dan'' \<rparr>]"

definition ex_p1 :: project where
  "ex_p1 =
     \<lparr> p_id = ''p1'', p_name = ''Sprint 1'', p_description = None,
       p_status = ''ACTIVE'', p_priority = ''MEDIUM'', p_color = ''#3B82F6'',
       p_dueDate = None, p_ownerId = ''u1'', p_updatedAt = 100 \<rparr>"

definition ex_p2 :: project where
  "ex_p2 =
     \<lparr> p_id = ''p2'', p_name = ''Roadmap'', p_description = Some ''Plans for next year'',
       p_status = ''ACTIVE'', p_priority = ''HIGH'', p_color = ''#3B82F6'',
       p_dueDate = None, p_ownerId = ''u3'', p_updatedAt = 200 \<rparr>"

definition ex_t1 :: task where
  "ex_t1 =
     \<lparr> t_id = ''t1'', t_title = ''Fix bug'', t_description = None, t_projectId = ''p1'',
       t_creatorId = ''u1'', t_assigneeId = Some ''u2'', t_status = ''To Do'',
       t_priority = ''MEDIUM'', t_dueDate = None, t_completedDate = None,
       t_estimatedHours = None, t_actualHours = None, t_position = 0,
       t_isArchived = False, t_createdAt = 110 \<rparr>"

definition ex_t2 :: task where
  "ex_t2 =
     \<lparr> t_id = ''t2'', t_title = ''Old idea'', t_description = None, t_projectId = ''p1'',
       t_creatorId = ''u4'', t_assigneeId = None, t_status = ''To Do'',
       t_priority = ''LOW'', t_dueDate = None, t_completedDate = None,
       t_estimatedHours = None, t_actualHours = None, t_position = 1,
       t_isArchived = True, t_createdAt = 120 \<rparr>"

definition ex_t3 :: task where
  "ex_t3 =
     \<lparr> t_id = ''t3'', t_title = ''Draft plan'', t_description = None, t_projectId = ''p2'',
       t_creatorId = ''u3'', t_assigneeId = None, t_status = ''To Do'',
       t_priority = ''MEDIUM'', t_dueDate = None, t_completedDate = None,
       t_estimatedHours = None, t_actualHours = None, t_position = 0,
       t_isArchived = False, t_createdAt = 210 \<rparr>"

definition ex_k1 :: comment where
  "ex_k1 =
     \<lparr> k_id = ''k1'', k_content = ''Seen on staging'', k_authorId = ''u3'',
       k_taskId = ''t1'', k_isEdited = False, k_createdAt = 130, k_updatedAt = 130 \<rparr>"

definition ex_db :: db where
  "ex_db =
     \<lparr> users = ex_users,
       projects = [ex_p1, ex_p2],
       members =
         [\<lparr> m_userId = ''u1'', m_projectId = ''p1'', m_role = ''OWNER'' \<rparr>,
          \<lparr> m_userId = ''u2'', m_projectId = ''p1'', m_role = ''MEMBER'' \<rparr>,
          \<lparr> m_userId = ''u4'', m_projectId = ''p1'', m_role = ''MEMBER'' \<rparr>,
          \<lparr> m_userId = ''u3'', m_projectId = ''p2'', m_role = ''OWNER'' \<rparr>,
          \<lparr> m_userId = ''u2'', m_projectId = ''p2'', m_role = ''MEMBER'' \<rparr>],
       columns = map (columnRow ''p1'') defaultColumns @ map (columnRow ''p2'') defaultColumns,
       tags = [],
       tasks = [ex_t1, ex_t2, ex_t3],
       comments = [ex_k1],
       watchers =
         [\<lparr> w_userId = ''u1'', w_taskId = ''t1'' \<rparr>,
          \<lparr> w_userId = ''u2'', w_taskId = ''t1'' \<rparr>,
          \<lparr> w_userId = ''u4'', w_taskId = ''t2'' \<rparr>,
          \<lparr> w_userId = ''u3'', w_taskId = ''t3'' \<rparr>],
       taskTags = [] \<rparr>"

text \<open>The identifiers the store generates during one call.\<close>

definition ex_gen :: "nat \<Rightarrow> ident" where
  "ex_gen n = ''n'' @ replicate n (CHR ''+'')"

definition ex_projectData :: projectData where
  "ex_projectData =
     \<lparr> pd_name = ''Sprint 2'', pd_descriptionIn = None, pd_dueDateIn = None,
       pd_priorityIn = None, pd_colorIn = None, pd_tagsIn = Some [''Backend''] \<rparr>"

definition ex_taskData :: taskData where
  "ex_taskData =
     \<lparr> td_title = ''Write tests'', td_description = None, td_assigneeId = Some ''u1'',
       td_status = None, td_priority = None, td_dueDate = None,
       td_estimatedHours = None, td_tags = Some [''Backend''] \<rparr>"

definition ex_patch :: taskPatch where
  "ex_patch =
     \<lparr> tp_title = None, tp_description = None, tp_assigneeId = None,
       tp_status = Some ''In Progress'', tp_priority = None, tp_dueDate = None,
       tp_completedDate = Some (Some 999), tp_estimatedHours = None, tp_actualHours = None,
       tp_position = None, tp_isArchived = None, tp_tags = None \<rparr>"


text \<open>The outcome of an operation that returns a value and the new store, seen through
  a function of the new store.\<close>

definition after :: "(db \<Rightarrow> 'b) \<Rightarrow> error + ('a \<times> db) \<Rightarrow> error + 'b" where
  "after f r = map_sum id (f \<circ> snd) r"

text \<open>The same for the returned value.\<close>

definition returned :: "('a \<Rightarrow> 'b) \<Rightarrow> error + ('a \<times> db) \<Rightarrow> error + 'b" where
  "returned f r = map_sum id (f \<circ> fst) r"

definition ownerIds :: "ident \<Rightarrow> db \<Rightarrow> ident list" where
  "ownerIds projectId d = map m_userId (ownerRows d projectId)"

section \<open>Properties\<close>

subsection \<open>Lookups in a table\<close>

lemma find_SomeD: "find P xs = Some x \<Longrightarrow> x \<in> set xs \<and> P x"
  by (induction xs) (auto split: if_splits)

lemma find_NoneI: "(\<And>x. x \<in> set xs \<Longrightarrow> \<not> P x) \<Longrightarrow> find P xs = None"
  by (induction xs) auto

lemma find_append_last:
  "(\<And>y. y \<in> set xs \<Longrightarrow> \<not> P y) \<Longrightarrow> P x \<Longrightarrow> find P (xs @ [x]) = Some x"
  by (induction xs) auto

lemma find_filter: "find P (filter Q xs) = find (\<lambda>x. Q x \<and> P x) xs"
  by (induction xs) auto

text \<open>Under a unique key a lookup by the key of a stored row finds that row.\<close>

lemma find_unique_key:
  "distinct (map f xs) \<Longrightarrow> x \<in> set xs \<Longrightarrow>
   find (\<lambda>y. f y = f x \<and> Q y) xs = (if Q x then Some x else None)"
proof (induction xs)
  case Nil
  then show ?case by simp
next
  case (Cons a xs)
  show ?case
  proof (cases "a = x")
    case True
    with Cons.prems have "\<And>y. y \<in> set xs \<Longrightarrow> f y \<noteq> f x"
      by (auto simp: image_iff)
    then have "find (\<lambda>y. f y = f x \<and> Q y) xs = None"
      by (intro find_NoneI) simp
    with True show ?thesis by simp
  next
    case False
    with Cons.prems have "x \<in> set xs" "f a \<noteq> f x" by auto
    with Cons show ?thesis by simp
  qed
qed

subsection \<open>Project access\<close>

lemma getProjectById_SomeD:
  "getProjectById ident userId d = Inr v \<Longrightarrow>
     pd_project v \<in> set (projects d) \<and> p_id (pd_project v) = ident \<and>
     pd_members v = filter (\<lambda>m. m_projectId m = ident) (members d)"
  by (auto simp: getProjectById_def project_include_def split: option.splits dest: find_SomeD)

lemma getProjectById_unique:
  assumes "distinct (map p_id (projects d))" "p \<in> set (projects d)"
  shows "getProjectById (p_id p) userId d =
           (if p_ownerId p = userId \<or> membersSome d p userId
            then Inr (project_include d p) else Inl ProjectNotFoundOrDenied)"
  using find_unique_key [OF assms, of "\<lambda>q. p_ownerId q = userId \<or> membersSome d q userId"]
  by (simp add: getProjectById_def)



subsection \<open>Listing a user's projects\<close>

text \<open>
  Without a search term the listing is confined to the projects the user owns or is a
  member of, on every page and under every status filter.
\<close>

lemma getUserProjects_without_search:
  assumes "\<not> truthy (f_search filters)"
    and "getUserProjects userId filters d = Inr (ps, pg)"
    and "p \<in> set ps"
  shows "p_ownerId p = userId \<or> membersSome d p userId"
proof -
  let ?w = "userProjectsWhere userId filters"
  have alt: "where_OR ?w = [OwnerIs userId, MembersSomeUser userId]"
    using assms(1) by (simp add: userProjectsWhere_def Let_def)
  from assms(2) have "ps = take (f_limit filters)
      (drop (nat ((int (f_page filters) - 1) * int (f_limit filters)))
        (sort_key (\<lambda>p. - p_updatedAt p) (filter (matches_where d ?w) (projects d))))"
    by (auto simp: getUserProjects_def Let_def split: if_splits)
  with assms(3)
  have "p \<in> set (sort_key (\<lambda>p. - p_updatedAt p) (filter (matches_where d ?w) (projects d)))"
    by (auto dest!: in_set_takeD in_set_dropD)
  then have "matches_where d ?w p" by simp
  then show ?thesis by (auto simp: matches_where_def alt)
qed

text \<open>
  With a search term the assignment to \<^verbatim>\<open>where.OR\<close> replaces the owner-or-member
  alternative, whatever the user and the other filters.
\<close>

lemma userProjectsWhere_search:
  "truthy (f_search filters) \<Longrightarrow>
   where_OR (userProjectsWhere userId filters) =
     [NameContains (the (f_search filters)), DescriptionContains (the (f_search filters))]"
  by (simp add: userProjectsWhere_def Let_def)

text \<open>
  C1. The listing is meant to hold only projects of which the user is the owner or a
  member. In the sample store Dan neither owns the project Roadmap nor is a member of it,
  yet his search for \<^verbatim>\<open>road\<close> returns it.
\<close>

theorem getUserProjects_search_drops_access_filter:
  "p_ownerId ex_p2 \<noteq> ''u4'' \<and> \<not> membersSome ex_db ex_p2 ''u4'' \<and>
   getUserProjects ''u4''
     \<lparr> f_status = None, f_search = Some ''road'', f_page = 1, f_limit = 10 \<rparr> ex_db =
     Inr ([ex_p2], \<lparr> pg_current = 1, pg_pages = Some 1, pg_total = 1 \<rparr>)"
  by code_simp

subsection \<open>One owner row per project\<close>

lemma createProject_tables:
  assumes "createProject projectData ownerId now gen d = Inr (r, d')"
  shows "projects d' = projects d @ [newProject projectData ownerId now (gen 0)]"
    and "members d' = members d @ [ownerMember ownerId (gen 0)]"
    and "columns d' = columns d @ map (columnRow (gen 0)) defaultColumns"
    and "\<not> list_ex (\<lambda>p. p_id p = gen 0) (projects d)"
  using assms
  by (auto simp: createProject_def Let_def newProject_def split: if_splits option.splits)

lemma ownerRows_append:
  "members d' = members d @ [m] \<Longrightarrow>
   ownerRows d' projectId =
     ownerRows d projectId @
       (if m_projectId m = projectId \<and> m_role m = ''OWNER'' then [m] else [])"
  by (simp add: ownerRows_def)

lemma createProject_invariant:
  assumes ok: "createProject projectData ownerId now gen d = Inr (r, d')"
    and inv: "owner_invariant d" and refs: "members_refer d"
  shows "owner_invariant d' \<and> members_refer d' \<and>
         list_ex (\<lambda>p. p_id p = gen 0 \<and> p_ownerId p = ownerId) (projects d')"
proof -
  note t = createProject_tables [OF ok]
  have fresh: "\<And>p. p \<in> set (projects d) \<Longrightarrow> p_id p \<noteq> gen 0"
    using t(4) by (auto simp: list_ex_iff)
  have none: "ownerRows d (gen 0) = []"
    using refs fresh
    by (auto simp: ownerRows_def members_refer_def list_all_iff list_ex_iff filter_empty_conv)
  have old: "one_owner d' p" if "p \<in> set (projects d)" for p
    using that inv fresh [OF that] ownerRows_append [OF t(2), of "p_id p"]
    by (auto simp: owner_invariant_def list_all_iff one_owner_def ownerMember_def)
  have new: "one_owner d' (newProject projectData ownerId now (gen 0))"
    using none ownerRows_append [OF t(2), of "gen 0"]
    by (simp add: one_owner_def newProject_def ownerMember_def)
  have "owner_invariant d'"
    using old new by (auto simp: owner_invariant_def list_all_iff t(1))
  moreover have "members_refer d'"
    using refs
    by (auto simp: members_refer_def list_all_iff list_ex_iff t(1) t(2) ownerMember_def
        newProject_def)
  moreover have "list_ex (\<lambda>p. p_id p = gen 0 \<and> p_ownerId p = ownerId) (projects d')"
    by (simp add: t(1) newProject_def)
  ultimately show ?thesis by simp
qed

lemma addMember_tables:
  assumes "addMember projectId email role userId d = Inr (v, d')"
  shows "\<exists>u. members d' = members d @
           [\<lparr> m_userId = u, m_projectId = projectId, m_role = toUpperCase role \<rparr>]"
    and "projects d' = projects d"
    and "list_ex (\<lambda>p. p_id p = projectId) (projects d)"
  using assms
  by (auto simp: addMember_def Let_def list_ex_iff split: sum.splits if_splits option.splits
      dest!: getProjectById_SomeD)

lemma addMember_invariant:
  assumes ok: "addMember projectId email role userId d = Inr (v, d')"
    and role: "toUpperCase role \<noteq> ''OWNER''"
    and inv: "owner_invariant d" and refs: "members_refer d"
  shows "owner_invariant d' \<and> members_refer d'"
proof -
  from addMember_tables(1) [OF ok] obtain u where
    m: "members d' = members d @
          [\<lparr> m_userId = u, m_projectId = projectId, m_role = toUpperCase role \<rparr>]" ..
  note p = addMember_tables(2) [OF ok] and e = addMember_tables(3) [OF ok]
  have "ownerRows d' pid = ownerRows d pid" for pid
    using ownerRows_append [OF m, of pid] role by simp
  then have "owner_invariant d'"
    using inv by (simp add: owner_invariant_def list_all_iff one_owner_def p)
  moreover have "members_refer d'"
    using refs e by (simp add: members_refer_def m p)
  ultimately show ?thesis ..
qed

lemma removeMember_tables:
  assumes "removeMember projectId memberUserId userId d = Inr d'"
  shows "members d' =
           filter (\<lambda>m. \<not> (m_userId m = memberUserId \<and> m_projectId m = projectId)) (members d)"
    and "projects d' = projects d"
    and "\<exists>p \<in> set (projects d). p_id p = projectId \<and> p_ownerId p \<noteq> memberUserId"
  using assms
  by (auto simp: removeMember_def split: sum.splits if_splits dest!: getProjectById_SomeD)

lemma removeMember_invariant:
  assumes ok: "removeMember projectId memberUserId userId d = Inr d'"
    and inv: "owner_invariant d" and refs: "members_refer d"
  shows "owner_invariant d' \<and> members_refer d'"
proof -
  note t = removeMember_tables [OF ok]
  from t(3) obtain q where q: "q \<in> set (projects d)" "p_id q = projectId"
    "p_ownerId q \<noteq> memberUserId" by blast
  have qrows: "map m_userId (ownerRows d projectId) = [p_ownerId q]"
    using inv q by (auto simp: owner_invariant_def list_all_iff one_owner_def)
  have keep: "\<not> (m_userId m = memberUserId \<and> m_projectId m = projectId)"
    if "m \<in> set (ownerRows d pid)" for m pid
  proof
    assume a: "m_userId m = memberUserId \<and> m_projectId m = projectId"
    with that have "m \<in> set (ownerRows d projectId)"
      by (auto simp: ownerRows_def)
    then have "m_userId m \<in> set (map m_userId (ownerRows d projectId))"
      by simp
    with qrows q(3) a show False by simp
  qed
  have "ownerRows d' pid = ownerRows d pid" for pid
  proof -
    have "ownerRows d' pid =
        filter (\<lambda>m. \<not> (m_userId m = memberUserId \<and> m_projectId m = projectId))
          (ownerRows d pid)"
      by (auto simp: ownerRows_def t(1) intro: filter_cong)
    also have "\<dots> = ownerRows d pid"
      using keep by (simp add: filter_id_conv)
    finally show ?thesis .
  qed
  then have "owner_invariant d'"
    using inv by (simp add: owner_invariant_def list_all_iff one_owner_def t(2))
  moreover have "members_refer d'"
    using refs by (auto simp: members_refer_def list_all_iff t(1) t(2))
  ultimately show ?thesis ..
qed

text \<open>
  C2, as stated, fails for \<open>addMember\<close>: the service stores whatever role it is given, in
  upper case. In the sample store Alice, the owner of the first project, adds Carol with
  the role \<^verbatim>\<open>OWNER\<close>; the call succeeds and the project has two owner rows.
\<close>

theorem addMember_owner_role_counterexample:
  "ownerIds ''p1'' ex_db = [''u1''] \<and> p_ownerId ex_p1 = ''u1'' \<and>
   after (ownerIds ''p1'') (addMember ''p1'' ''carol@x.com'' ''OWNER'' ''u1'' ex_db) =
     Inr [''u1'', ''u3'']"
  by code_simp

text \<open>
  C2, amended. In a store whose membership rows all belong to stored projects and in
  which every project has exactly one row of role \<^verbatim>\<open>OWNER\<close>, that of its owner, the same
  holds again after a successful \<open>createProject\<close> (whose new project is owned by the
  caller), after a successful \<open>addMember\<close> whose role is not \<^verbatim>\<open>OWNER\<close> in upper case (the
  route admits only \<^verbatim>\<open>ADMIN\<close> and \<^verbatim>\<open>MEMBER\<close>), and after a successful \<open>removeMember\<close>.
\<close>

theorem owner_invariant_preserved:
  "(createProject projectData ownerId now gen d = Inr (r, d1) \<and>
      owner_invariant d \<and> members_refer d \<longrightarrow>
        owner_invariant d1 \<and> members_refer d1 \<and>
        list_ex (\<lambda>p. p_id p = gen 0 \<and> p_ownerId p = ownerId) (projects d1)) \<and>
   (addMember projectId email role userId d = Inr (v, d2) \<and> toUpperCase role \<noteq> ''OWNER'' \<and>
      owner_invariant d \<and> members_refer d \<longrightarrow>
        owner_invariant d2 \<and> members_refer d2) \<and>
   (removeMember projectId memberUserId userId d = Inr d3 \<and>
      owner_invariant d \<and> members_refer d \<longrightarrow>
        owner_invariant d3 \<and> members_refer d3)"
  using createProject_invariant addMember_invariant removeMember_invariant by blast

theorem owner_invariant_preserved_witness:
  "owner_invariant ex_db \<and> members_refer ex_db \<and>
   after owner_invariant (createProject ex_projectData ''u2'' 300 ex_gen ex_db) = Inr True \<and>
   after (ownerIds (ex_gen 0)) (createProject ex_projectData ''u2'' 300 ex_gen ex_db) =
     Inr [''u2''] \<and>
   after owner_invariant (addMember ''p1'' ''carol@x.com'' ''admin'' ''u1'' ex_db) = Inr True \<and>
   map_sum id owner_invariant (removeMember ''p1'' ''u2'' ''u1'' ex_db) = Inr True"
proof -
  have inv: "owner_invariant ex_db" and refs: "members_refer ex_db"
    by code_simp+
  have "\<not> isl (createProject ex_projectData ''u2'' 300 ex_gen ex_db)"
    by code_simp
  then obtain r d1 where c: "createProject ex_projectData ''u2'' 300 ex_gen ex_db = Inr (r, d1)"
    by (cases "createProject ex_projectData ''u2'' 300 ex_gen ex_db") auto
  have "\<not> isl (addMember ''p1'' ''carol@x.com'' ''admin'' ''u1'' ex_db)"
    by code_simp
  then obtain v d2 where a: "addMember ''p1'' ''carol@x.com'' ''admin'' ''u1'' ex_db = Inr (v, d2)"
    by (cases "addMember ''p1'' ''carol@x.com'' ''admin'' ''u1'' ex_db") auto
  have "\<not> isl (removeMember ''p1'' ''u2'' ''u1'' ex_db)"
    by code_simp
  then obtain d3 where m: "removeMember ''p1'' ''u2'' ''u1'' ex_db = Inr d3"
    by (cases "removeMember ''p1'' ''u2'' ''u1'' ex_db") auto
  have role: "toUpperCase ''admin'' \<noteq> ''OWNER''"
    by code_simp
  have ids: "after (ownerIds (ex_gen 0)) (createProject ex_projectData ''u2'' 300 ex_gen ex_db) =
      Inr [''u2'']"
    by code_simp
  note inst = owner_invariant_preserved
    [of ex_projectData "''u2''" 300 ex_gen ex_db r d1
        "''p1''" "''carol@x.com''" "''admin''" "''u1''" v d2 "''u2''" d3]
  have "owner_invariant d1"
    using inst c inv refs by simp
  moreover have "owner_invariant d2"
    using inst a role inv refs by simp
  moreover have "owner_invariant d3"
    using inst m inv refs by simp
  ultimately show ?thesis
    using inv refs ids by (simp add: c a m after_def)
qed

subsection \<open>Removing the owner\<close>

lemma isEditor_role:
  "isEditor (project_include d p) userId =
     (getUserRole (p_id p) userId d = Some ''OWNER'' \<or>
      getUserRole (p_id p) userId d = Some ''ADMIN'')"
proof -
  have "find (\<lambda>m. m_userId m = userId) (pd_members (project_include d p)) =
          memberRow (p_id p) userId d"
    by (simp add: project_include_def memberRow_def find_filter conj_commute)
  then show ?thesis
    by (auto simp: isEditor_def getUserRole_def split: option.splits)
qed

text \<open>
  C6, as stated, fails: the permission checks come before the owner check. In the sample
  store Bob, a plain member of the first project, asks to remove Alice, its owner; the
  failure is \<open>InsufficientPermissions\<close>, not \<open>CannotRemoveOwner\<close>.
\<close>

theorem removeMember_owner_by_member_counterexample:
  "p_id ex_p1 = ''p1'' \<and> p_ownerId ex_p1 = ''u1'' \<and>
   removeMember ''p1'' ''u1'' ''u2'' ex_db = Inl (InsufficientPermissions RemoveMembers)"
  by code_simp

text \<open>
  C6, amended. With project identifiers unique, \<open>removeMember\<close> of the owner of a stored
  project fails for every caller, so that no row is deleted. The failure is
  \<open>ProjectNotFoundOrDenied\<close> for a caller who is neither the owner nor a member,
  \<open>CannotRemoveOwner\<close> for a caller whose membership row has the role \<^verbatim>\<open>OWNER\<close> or
  \<^verbatim>\<open>ADMIN\<close>, and \<open>InsufficientPermissions\<close> for every other caller.
\<close>

theorem removeMember_owner_fails:
  assumes "distinct (map p_id (projects d))" and "p \<in> set (projects d)"
  shows "removeMember (p_id p) (p_ownerId p) caller d =
           Inl (if p_ownerId p \<noteq> caller \<and> \<not> membersSome d p caller
                then ProjectNotFoundOrDenied
                else if getUserRole (p_id p) caller d = Some ''OWNER'' \<or>
                        getUserRole (p_id p) caller d = Some ''ADMIN''
                then CannotRemoveOwner
                else InsufficientPermissions RemoveMembers)"
  using isEditor_role [of d p caller]
  by (simp add: removeMember_def getProjectById_unique [OF assms] project_include_def)

theorem removeMember_owner_fails_witness:
  "distinct (map p_id (projects ex_db)) \<and> ex_p1 \<in> set (projects ex_db) \<and>
   removeMember ''p1'' ''u1'' ''u1'' ex_db = Inl CannotRemoveOwner \<and>
   removeMember ''p1'' ''u1'' ''u4'' ex_db = Inl (InsufficientPermissions RemoveMembers) \<and>
   removeMember ''p1'' ''u1'' ''u3'' ex_db = Inl ProjectNotFoundOrDenied"
proof -
  have h1: "distinct (map p_id (projects ex_db))"
    by code_simp
  have h2: "ex_p1 \<in> set (projects ex_db)"
    by (simp add: ex_db_def)
  have ids: "p_id ex_p1 = ''p1''" "p_ownerId ex_p1 = ''u1''"
    by (simp_all add: ex_p1_def)
  have a: "getUserRole ''p1'' ''u1'' ex_db = Some ''OWNER''"
    and b: "getUserRole ''p1'' ''u4'' ex_db = Some ''MEMBER''"
    and b': "membersSome ex_db ex_p1 ''u4''"
    and c: "\<not> membersSome ex_db ex_p1 ''u3''"
    by code_simp+
  show ?thesis
    using removeMember_owner_fails [OF h1 h2, of "''u1''"]
      removeMember_owner_fails [OF h1 h2, of "''u4''"]
      removeMember_owner_fails [OF h1 h2, of "''u3''"]
      h1 h2 a b b' c
    by (simp add: ids)
qed

subsection \<open>The default columns\<close>

text \<open>
  C8. When \<open>createProject\<close> succeeds in a store whose column rows all belong to stored
  projects, \<open>getProjectById\<close> of the new project by its owner succeeds and returns as
  columns, in this order, To Do (0, \<^verbatim>\<open>#EF4444\<close>), In Progress (1, \<^verbatim>\<open>#F59E0B\<close>), Review
  (2, \<^verbatim>\<open>#8B5CF6\<close>) and Done (3, \<^verbatim>\<open>#10B981\<close>). The project data has no field for columns.
\<close>

theorem createProject_getProjectById_columns:
  assumes ok: "createProject projectData ownerId now gen d = Inr (r, d')"
    and refs: "columns_refer d"
  shows "map_sum id pd_columns (getProjectById (gen 0) ownerId d') =
           Inr [\<lparr> c_projectId = gen 0, c_name = ''To Do'', c_order = 0,
                   c_color = ''#EF4444'' \<rparr>,
                \<lparr> c_projectId = gen 0, c_name = ''In Progress'', c_order = 1,
                   c_color = ''#F59E0B'' \<rparr>,
                \<lparr> c_projectId = gen 0, c_name = ''Review'', c_order = 2,
                   c_color = ''#8B5CF6'' \<rparr>,
                \<lparr> c_projectId = gen 0, c_name = ''Done'', c_order = 3,
                   c_color = ''#10B981'' \<rparr>]"
proof -
  note t = createProject_tables [OF ok]
  let ?new = "newProject projectData ownerId now (gen 0)"
  have fresh: "\<And>p. p \<in> set (projects d) \<Longrightarrow> p_id p \<noteq> gen 0"
    using t(4) by (auto simp: list_ex_iff)
  have f: "find (\<lambda>p. p_id p = gen 0 \<and> (p_ownerId p = ownerId \<or> membersSome d' p ownerId))
             (projects d') = Some ?new"
    unfolding t(1) by (rule find_append_last) (auto simp: fresh newProject_def)
  have old: "filter (\<lambda>c. c_projectId c = gen 0) (columns d) = []"
    using refs fresh
    by (auto simp: columns_refer_def list_all_iff list_ex_iff filter_empty_conv)
  have cols: "filter (\<lambda>c. c_projectId c = gen 0) (columns d') =
                map (columnRow (gen 0)) defaultColumns"
    by (simp add: t(3) old columnRow_def defaultColumns_def)
  have "pd_columns (project_include d' ?new) =
          sort_key c_order (map (columnRow (gen 0)) defaultColumns)"
    using cols by (simp add: project_include_def newProject_def)
  also have "\<dots> = map (columnRow (gen 0)) defaultColumns"
    by (simp add: columnRow_def defaultColumns_def)
  finally show ?thesis
    by (simp add: getProjectById_def f columnRow_def defaultColumns_def)
qed

theorem createProject_getProjectById_columns_witness:
  "columns_refer ex_db \<and>
   \<not> isl (createProject ex_projectData ''u2'' 300 ex_gen ex_db) \<and>
   map_sum id (map c_name \<circ> pd_columns)
     (getProjectById (ex_gen 0) ''u2''
        (snd (projr (createProject ex_projectData ''u2'' 300 ex_gen ex_db)))) =
     Inr [''To Do'', ''In Progress'', ''Review'', ''Done'']"
proof -
  have refs: "columns_refer ex_db"
    by code_simp
  have ok: "\<not> isl (createProject ex_projectData ''u2'' 300 ex_gen ex_db)"
    by code_simp
  then obtain r d' where c: "createProject ex_projectData ''u2'' 300 ex_gen ex_db = Inr (r, d')"
    by (cases "createProject ex_projectData ''u2'' 300 ex_gen ex_db") auto
  obtain v where v: "getProjectById (ex_gen 0) ''u2'' d' = Inr v"
    and cs: "map c_name (pd_columns v) = [''To Do'', ''In Progress'', ''Review'', ''Done'']"
    using createProject_getProjectById_columns [OF c refs]
    by (cases "getProjectById (ex_gen 0) ''u2'' d'") auto
  show ?thesis
    using refs v cs by (simp add: c)
qed

subsection \<open>Who may update and who may delete a task\<close>

lemma getTaskById_found:
  assumes "find (\<lambda>x. t_id x = ident) (tasks d) = Some t"
    and "isProjectMember (t_projectId t) userId d"
  shows "getTaskById ident userId d = Inr (task_include d t)"
  using assms by (simp add: getTaskById_def)

lemma unknownAssignee_taskUpdateData:
  "unknownAssignee (taskUpdateData updateData now) d = unknownAssignee updateData d"
  by (simp add: unknownAssignee_def taskUpdateData_def)

lemma updateTask_outcome:
  assumes "find (\<lambda>x. t_id x = ident) (tasks d) = Some t"
    and "isProjectMember (t_projectId t) userId d"
  shows "canEdit t userId (getUserRole (t_projectId t) userId d) \<Longrightarrow>
           updateTask ident updateData userId now d \<noteq> Inl (InsufficientPermissions EditTask)"
    and "\<not> canEdit t userId (getUserRole (t_projectId t) userId d) \<Longrightarrow>
           updateTask ident updateData userId now d = Inl (InsufficientPermissions EditTask)"
    and "canEdit t userId (getUserRole (t_projectId t) userId d) \<Longrightarrow>
         \<not> unknownAssignee updateData d \<Longrightarrow>
           \<exists>d'. updateTask ident updateData userId now d =
                  Inr (applyTaskData (taskUpdateData updateData now) t, d') \<and>
                tasks d' =
                  map (\<lambda>x. if t_id x = ident
                           then applyTaskData (taskUpdateData updateData now) x else x)
                    (tasks d)"
  by (simp_all add: updateTask_def getTaskById_found [OF assms] task_include_def Let_def
      unknownAssignee_taskUpdateData)

lemma deleteTask_outcome:
  assumes "find (\<lambda>x. t_id x = ident) (tasks d) = Some t"
    and "isProjectMember (t_projectId t) userId d"
  shows "canDelete t userId (getUserRole (t_projectId t) userId d) \<Longrightarrow>
           deleteTask ident userId d = Inr (deleteTaskRows ident d)"
    and "\<not> canDelete t userId (getUserRole (t_projectId t) userId d) \<Longrightarrow>
           deleteTask ident userId d = Inl (InsufficientPermissions DeleteTask)"
  by (simp_all add: deleteTask_def getTaskById_found [OF assms] task_include_def Let_def)

text \<open>
  C4. For a task that exists and a caller who is a member of its project, \<open>updateTask\<close>
  fails with \<open>InsufficientPermissions\<close> exactly when the caller is neither the creator nor
  the current assignee and holds neither \<^verbatim>\<open>OWNER\<close> nor \<^verbatim>\<open>ADMIN\<close>; \<open>deleteTask\<close> fails
  with \<open>InsufficientPermissions\<close> exactly when the caller is not the creator and holds
  neither role. A caller who is only the assignee passes the first check and fails the
  second.
\<close>

theorem task_permission_checks:
  assumes "find (\<lambda>x. t_id x = ident) (tasks d) = Some t"
    and "isProjectMember (t_projectId t) userId d"
  shows "((updateTask ident updateData userId now d = Inl (InsufficientPermissions EditTask)) =
            (\<not> (t_creatorId t = userId \<or> t_assigneeId t = Some userId \<or>
                getUserRole (t_projectId t) userId d = Some ''OWNER'' \<or>
                getUserRole (t_projectId t) userId d = Some ''ADMIN''))) \<and>
         ((deleteTask ident userId d = Inl (InsufficientPermissions DeleteTask)) =
            (\<not> (t_creatorId t = userId \<or>
                getUserRole (t_projectId t) userId d = Some ''OWNER'' \<or>
                getUserRole (t_projectId t) userId d = Some ''ADMIN'')))"
proof -
  let ?role = "getUserRole (t_projectId t) userId d"
  have "(updateTask ident updateData userId now d = Inl (InsufficientPermissions EditTask)) =
          (\<not> canEdit t userId ?role)"
    using updateTask_outcome(1,2) [OF assms, of updateData now]
    by (cases "canEdit t userId ?role") auto
  moreover
  have "(deleteTask ident userId d = Inl (InsufficientPermissions DeleteTask)) =
          (\<not> canDelete t userId ?role)"
    using deleteTask_outcome [OF assms]
    by (cases "canDelete t userId ?role") auto
  ultimately show ?thesis
    by (simp add: canEdit_def canDelete_def)
qed

theorem task_permission_checks_witness:
  "t_creatorId ex_t1 \<noteq> ''u2'' \<and> t_assigneeId ex_t1 = Some ''u2'' \<and>
   getUserRole ''p1'' ''u2'' ex_db = Some ''MEMBER'' \<and>
   updateTask ''t1'' ex_patch ''u2'' 300 ex_db \<noteq> Inl (InsufficientPermissions EditTask) \<and>
   deleteTask ''t1'' ''u2'' ex_db = Inl (InsufficientPermissions DeleteTask)"
proof -
  have h1: "find (\<lambda>x. t_id x = ''t1'') (tasks ex_db) = Some ex_t1"
    by code_simp
  have h2: "isProjectMember (t_projectId ex_t1) ''u2'' ex_db"
    by code_simp
  have f: "t_creatorId ex_t1 \<noteq> ''u2''" "t_assigneeId ex_t1 = Some ''u2''"
    "t_projectId ex_t1 = ''p1''" "getUserRole ''p1'' ''u2'' ex_db = Some ''MEMBER''"
    by code_simp+
  note inst = task_permission_checks [OF h1 h2, of ex_patch 300]
  have "updateTask ''t1'' ex_patch ''u2'' 300 ex_db \<noteq> Inl (InsufficientPermissions EditTask)"
    using inst f by simp
  moreover have "deleteTask ''t1'' ''u2'' ex_db = Inl (InsufficientPermissions DeleteTask)"
    using inst f by simp
  ultimately show ?thesis
    using f by simp
qed

subsection \<open>The completion date\<close>

text \<open>What \<open>updateTask\<close> stores as completion date depends on the status of the patch alone.\<close>

lemma updateTask_completedDate:
  assumes "updateTask ident updateData userId now d = Inr (t', d')"
    and "find (\<lambda>x. t_id x = ident) (tasks d) = Some t"
  shows "t_completedDate t' =
           (if tp_status updateData = Some ''Done'' \<or> tp_status updateData = Some ''Completed''
            then Some now
            else if truthy (tp_status updateData) then None
            else t_completedDate t)"
  using assms
  by (auto simp: updateTask_def getTaskById_def task_include_def Let_def applyTaskData_def
      taskUpdateData_def split: if_splits)

text \<open>\<open>createTask\<close> stores no completion date, whatever the status.\<close>

lemma createTask_completedDate:
  "createTask taskData projectId creatorId now gen d = Inr (t, d') \<Longrightarrow>
   t_completedDate t = None"
  by (auto simp: createTask_def Let_def newTask_def split: if_splits sum.splits)

text \<open>
  C5. The completion date is meant to be set exactly when the status is Done or
  Completed. In the sample store Bob creates a task with the status Done: the task is
  stored with that status and without a completion date.
\<close>

theorem createTask_done_without_completedDate:
  "returned t_status
     (createTask (ex_taskData\<lparr> td_status := Some ''Done'' \<rparr>) ''p1'' ''u2'' 300 ex_gen ex_db) =
     Inr ''Done'' \<and>
   returned t_completedDate
     (createTask (ex_taskData\<lparr> td_status := Some ''Done'' \<rparr>) ''p1'' ''u2'' 300 ex_gen ex_db) =
     Inr None"
  by code_simp

subsection \<open>The position of a new task\<close>

lemma hd_sort_key_max:
  assumes "sort_key (\<lambda>t. - f t) xs = y # ys"
  shows "(f y :: int) = Max (f ` set xs)"
proof -
  have s: "sorted (map (\<lambda>t. - f t) (y # ys))"
    using sorted_sort_key [of "\<lambda>t. - f t" xs] assms by simp
  have eq: "set (y # ys) = set xs"
    using set_sort [of "\<lambda>t. - f t" xs] assms by simp
  have "\<And>z. z \<in> set xs \<Longrightarrow> f z \<le> f y"
    using s eq by auto
  moreover have "y \<in> set xs"
    using eq by auto
  ultimately show ?thesis
    by (intro Max_eqI [symmetric]) auto
qed

lemma nextPosition_eq:
  "nextPosition projectId status d =
     (if lane projectId status d = [] then 0
      else Max (t_position ` set (lane projectId status d)) + 1)"
proof (cases "sort_key (\<lambda>t. - t_position t) (lane projectId status d)")
  case Nil
  then have "lane projectId status d = []"
    by (metis length_sort list.size(3) length_0_conv)
  with Nil show ?thesis
    by (simp add: nextPosition_def lastTask_def)
next
  case (Cons y ys)
  then have "lane projectId status d \<noteq> []"
    by auto
  with Cons hd_sort_key_max [OF Cons] show ?thesis
    by (simp add: nextPosition_def lastTask_def)
qed

lemma linkTags_tasks:
  "linkTags gen k projectId taskId names d = Inr d' \<Longrightarrow> tasks d' = tasks d"
  by (induction gen k projectId taskId names d rule: linkTags.induct)
     (auto split: option.splits if_splits)

lemma createWatcher_tasks: "createWatcher u i d = Inr d' \<Longrightarrow> tasks d' = tasks d"
  by (auto simp: createWatcher_def split: if_splits)

text \<open>
  C7. A task created by \<open>createTask\<close> has as position 0 when its lane (the tasks of the
  project with its status, \<^verbatim>\<open>To Do\<close> when none is given) is empty, and otherwise one more
  than the largest position in the lane; the task table afterwards is the old one
  followed by the new task, so no earlier task has changed.
\<close>

theorem createTask_position:
  assumes "createTask taskData projectId creatorId now gen d = Inr (t, d')"
  shows "t_status t = or_default (td_status taskData) ''To Do'' \<and>
         t_position t =
           (if lane projectId (t_status t) d = [] then 0
            else Max (t_position ` set (lane projectId (t_status t) d)) + 1) \<and>
         tasks d' = tasks d @ [t]"
  using assms
  by (auto simp: createTask_def Let_def newTask_def nextPosition_eq
      split: if_splits sum.splits option.splits
      dest!: linkTags_tasks createWatcher_tasks)

theorem createTask_position_witness:
  "map t_position (lane ''p1'' ''To Do'' ex_db) = [0, 1] \<and>
   returned t_position (createTask ex_taskData ''p1'' ''u2'' 300 ex_gen ex_db) = Inr 2 \<and>
   after (map t_position \<circ> tasks) (createTask ex_taskData ''p1'' ''u2'' 300 ex_gen ex_db) =
     Inr [0, 1, 0, 2]"
proof -
  have "\<not> isl (createTask ex_taskData ''p1'' ''u2'' 300 ex_gen ex_db)"
    by code_simp
  then obtain t d' where c: "createTask ex_taskData ''p1'' ''u2'' 300 ex_gen ex_db = Inr (t, d')"
    by (cases "createTask ex_taskData ''p1'' ''u2'' 300 ex_gen ex_db") auto
  have l: "lane ''p1'' ''To Do'' ex_db = [ex_t1, ex_t2]"
    by code_simp
  have s: "or_default (td_status ex_taskData) ''To Do'' = ''To Do''"
    by code_simp
  have p: "t_position ex_t1 = 0" "t_position ex_t2 = 1"
    by (simp_all add: ex_t1_def ex_t2_def)
  have old: "map t_position (tasks ex_db) = [0, 1, 0]"
    by code_simp
  from createTask_position [OF c]
  have "t_position t = 2" "tasks d' = tasks ex_db @ [t]"
    by (simp_all add: s l p)
  then show ?thesis
    using old by (simp add: c l p returned_def after_def)
qed

subsection \<open>Comments and membership\<close>

text \<open>
  \<open>updateComment\<close> and \<open>deleteComment\<close> look the task up through \<open>getTaskById\<close> before
  they look at the comment: when the task named in the call exists and the caller is not
  a member of its project, both fail with \<open>AccessDenied\<close>, whichever comment is named and
  whoever wrote it.
\<close>

lemma comment_operations_on_foreign_task:
  assumes "find (\<lambda>x. t_id x = taskId) (tasks d) = Some t"
    and "\<not> isProjectMember (t_projectId t) userId d"
  shows "updateComment taskId commentId content userId now d = Inl AccessDenied \<and>
         deleteComment taskId commentId userId d = Inl AccessDenied"
  using assms by (simp add: updateComment_def deleteComment_def getTaskById_def)

lemma comment_operations_on_foreign_task_example:
  "updateComment ''t1'' ''k1'' ''edited'' ''u3'' 300 ex_db = Inl AccessDenied \<and>
   deleteComment ''t1'' ''k1'' ''u3'' ex_db = Inl AccessDenied"
  by code_simp

text \<open>
  C9. An author who is not a member of the project of the commented task is meant to be
  unable to edit or delete the comment. The membership that is checked is that of the
  task named in the call, and neither operation compares the task of the comment with
  it. In the sample store Carol is not a member of the first project and has written the
  comment \<^verbatim>\<open>k1\<close> on its task \<^verbatim>\<open>t1\<close>; naming the task \<^verbatim>\<open>t3\<close> of her own project she edits
  the comment, and in the same way she deletes it.
\<close>

theorem comment_operations_through_another_task:
  "find (\<lambda>k. k_id k = ''k1'') (comments ex_db) = Some ex_k1 \<and>
   k_authorId ex_k1 = ''u3'' \<and> k_taskId ex_k1 = ''t1'' \<and> t_projectId ex_t1 = ''p1'' \<and>
   \<not> isProjectMember ''p1'' ''u3'' ex_db \<and>
   returned k_content (updateComment ''t3'' ''k1'' ''edited'' ''u3'' 300 ex_db) =
     Inr ''edited'' \<and>
   after (map k_content \<circ> comments) (updateComment ''t3'' ''k1'' ''edited'' ''u3'' 300 ex_db) =
     Inr [''edited''] \<and>
   map_sum id (map k_id \<circ> comments) (deleteComment ''t3'' ''k1'' ''u3'' ex_db) = Inr []"
  by code_simp

subsection \<open>Archived tasks\<close>









end
